theory Spec2Isabelle
  imports Main "HOL-Library.Word" "HOL-Library.Monad_Syntax"
begin

section \<open>Data model\<close>

type_synonym u64 = "64 word"
type_synonym byte = "8 word"

text \<open>The errno values the burn-in code names (Linux numbering).\<close>

definition EIO :: int where
  "EIO = 5"

definition EINVAL :: int where
  "EINVAL = 22"

text \<open>
  One entry per call of \<^verbatim>\<open>blkdev.read\<close> / \<^verbatim>\<open>blkdev.write\<close>: first block, block count,
  (for a write) the bytes handed to the device, and the status the device returned.
  The log is a ghost field: the source keeps no such list, the model records the calls
  so that statements about "which I/O was issued" can be written down.
\<close>

datatype io_op =
    IoRead u64 u64 int
  | IoWrite u64 u64 "byte list" int

fun io_status :: "io_op \<Rightarrow> int" where
  "io_status (IoRead b n rv) = rv"
| "io_status (IoWrite b n d rv) = rv"

fun io_covers :: "io_op \<Rightarrow> nat \<Rightarrow> bool" where
  "io_covers (IoRead b n rv) k = (unat b \<le> k \<and> k < unat b + unat n)"
| "io_covers (IoWrite b n d rv) k = (unat b \<le> k \<and> k < unat b + unat n)"

text \<open>
  The collaborators of \<^verbatim>\<open>bbf_burnin.cpp\<close> are declared in headers that are not part of the
  sources (\<^verbatim>\<open>blkdev.hpp\<close>, \<^verbatim>\<open>signals.hpp\<close>, \<^verbatim>\<open>captcha.hpp\<close>, \<^verbatim>\<open>badblockfile.hpp\<close>,
  \<^verbatim>\<open>math.hpp\<close>).  They are parameters of the model: \<open>'w\<close> is the state of everything outside
  the program (device contents, pending signals, files), and every call takes that state
  and returns the new one.  A read is given the current buffer contents and returns the
  new ones, so a device that fills the buffer only partly, or not at all on failure, is
  covered.  \<^verbatim>\<open>math::round_down\<close> and \<^verbatim>\<open>math::round_up\<close> are pure; no result (\<open>None\<close>)
  stands for a call that does not return, such as a division by zero.
\<close>

record 'w env =
  logical_block_count :: u64
  logical_block_size :: u64
  block_stepping :: u64
  dev_read :: "'w \<Rightarrow> u64 \<Rightarrow> u64 \<Rightarrow> byte list \<Rightarrow> u64 \<Rightarrow> int \<times> byte list \<times> 'w"
  dev_write :: "'w \<Rightarrow> u64 \<Rightarrow> u64 \<Rightarrow> byte list \<Rightarrow> u64 \<Rightarrow> int \<times> 'w"
  signaled_to_exit :: "'w \<Rightarrow> bool"
  open_rdwr :: "'w \<Rightarrow> string \<Rightarrow> bool \<Rightarrow> int \<times> 'w"
  dev_close :: "'w \<Rightarrow> int \<times> 'w"
  set_rw_ata :: "'w \<Rightarrow> 'w"
  set_rw_os :: "'w \<Rightarrow> 'w"
  captcha_calculate :: "'w \<Rightarrow> string"
  badblockfile_filepath :: "'w \<Rightarrow> string"
  badblockfile_read :: "'w \<Rightarrow> string \<Rightarrow> int \<times> u64 list \<times> 'w"
  badblockfile_write :: "'w \<Rightarrow> string \<Rightarrow> u64 list \<Rightarrow> int \<times> 'w"
  math_round_down :: "u64 \<Rightarrow> u64 \<Rightarrow> u64 option"
  math_round_up :: "u64 \<Rightarrow> u64 \<Rightarrow> u64 option"

text \<open>
  What the functions of \<^verbatim>\<open>bbf_burnin.cpp\<close> mutate: the outside world, the I/O buffer
  \<^verbatim>\<open>buf_\<close> (one heap array shared by every step of a run), and the ghost log.
\<close>

record 'w state =
  world :: 'w
  buf :: "byte list"
  iolog :: "io_op list"

section \<open>Device calls and C library calls\<close>

definition blkdev_read :: "'w env \<Rightarrow> u64 \<Rightarrow> u64 \<Rightarrow> u64 \<Rightarrow> 'w state \<Rightarrow> int \<times> 'w state" where
  "blkdev_read blkdev block stepping buflen s =
     (case dev_read blkdev (world s) block stepping (buf s) buflen of
        (rv, b, w) \<Rightarrow> (rv, s\<lparr>world := w, buf := b, iolog := iolog s @ [IoRead block stepping rv]\<rparr>))"

definition blkdev_write :: "'w env \<Rightarrow> u64 \<Rightarrow> u64 \<Rightarrow> byte list \<Rightarrow> u64 \<Rightarrow> 'w state \<Rightarrow> int \<times> 'w state" where
  "blkdev_write blkdev block stepping write_buf buflen s =
     (case dev_write blkdev (world s) block stepping (take (unat buflen) write_buf) buflen of
        (rv, w) \<Rightarrow> (rv, s\<lparr>world := w,
                           iolog := iolog s @ [IoWrite block stepping (take (unat buflen) write_buf) rv]\<rparr>))"

text \<open>\<^verbatim>\<open>memset(buf_,0,buflen_)\<close> and \<^verbatim>\<open>memcmp(write_buf,buf_,buflen_)\<close>; of the latter the
  code only tests whether the result is zero.\<close>

definition memset :: "byte list \<Rightarrow> byte \<Rightarrow> u64 \<Rightarrow> byte list" where
  "memset b c n = replicate (unat n) c @ drop (unat n) b"

definition memcmp :: "byte list \<Rightarrow> byte list \<Rightarrow> u64 \<Rightarrow> int" where
  "memcmp a b n = (if take (unat n) a = take (unat n) b then 0 else 1)"

section \<open>The burn-in functions\<close>

definition trim_stepping :: "'w env \<Rightarrow> u64 \<Rightarrow> u64 \<Rightarrow> u64" where
  "trim_stepping blkdev block stepping =
     (let block_count = logical_block_count blkdev
      in if block > block_count then 0 else min (block_count - block) stepping)"

text \<open>
  The retry loop that the source writes out four times,
  \<^verbatim>\<open>rv = -1; for(uint64_t i = 0; ((i <= retries) && (rv < 0)); i++) rv = op;\<close>
  with \<open>op\<close> the device call.  The counter is a 64-bit word, so with \<open>retries = 2^64 - 1\<close>
  the bound never stops the loop and a device that keeps failing keeps it running:
  not returning is the value \<open>None\<close>.
\<close>

partial_function (option) for_retry ::
  "('w state \<Rightarrow> int \<times> 'w state) \<Rightarrow> u64 \<Rightarrow> u64 \<Rightarrow> int \<Rightarrow> 'w state \<Rightarrow> (int \<times> 'w state) option" where
  [code]: "for_retry op retries i rv s =
     (if i \<le> retries \<and> rv < 0
      then for_retry op retries (i + 1) (fst (op s)) (snd (op s))
      else Some (rv, s))"

text \<open>
  \<^verbatim>\<open>write_read_compare\<close> takes \<^verbatim>\<open>retries\<close> as an \<^verbatim>\<open>int\<close> and compares it with the
  \<^verbatim>\<open>uint64_t\<close> counter, which converts it to \<^verbatim>\<open>uint64_t\<close> (sign extension, \<open>scast\<close>;
  an \<^verbatim>\<open>int\<close> is a \<open>32 word\<close> read by \<open>sint\<close>).  It reads the batch back into \<^verbatim>\<open>buf_\<close>,
  the caller's buffer.
\<close>

definition write_read_compare ::
  "'w env \<Rightarrow> u64 \<Rightarrow> u64 \<Rightarrow> u64 \<Rightarrow> 32 word \<Rightarrow> byte list \<Rightarrow> 'w state \<Rightarrow> (int \<times> 'w state) option" where
  "write_read_compare blkdev stepping block buflen retries write_buf s =
     do {
       (rv, s1) \<leftarrow> for_retry (blkdev_write blkdev block stepping write_buf buflen) (scast retries) 0 (- 1) s;
       if rv < 0 then Some (rv, s1)
       else do {
         (rv, s2) \<leftarrow> for_retry (blkdev_read blkdev block stepping buflen) (scast retries) 0 (- 1) s1;
         if rv < 0 then Some (rv, s2)
         else if memcmp write_buf (buf s2) buflen \<noteq> 0 then Some (- EIO, s2)
         else Some (0, s2)
       }
     }"

text \<open>The loop over \<^verbatim>\<open>patterns_\<close> in \<^verbatim>\<open>burn_block\<close>: each result overwrites \<^verbatim>\<open>rv\<close>.
  The \<^verbatim>\<open>uint64_t\<close> retry count is passed to an \<^verbatim>\<open>int\<close> parameter (truncation).\<close>

fun for_patterns ::
  "'w env \<Rightarrow> u64 \<Rightarrow> u64 \<Rightarrow> u64 \<Rightarrow> u64 \<Rightarrow> byte list list \<Rightarrow> int \<Rightarrow> 'w state \<Rightarrow> (int \<times> 'w state) option" where
  "for_patterns blkdev stepping block buflen retries [] rv s = Some (rv, s)"
| "for_patterns blkdev stepping block buflen retries (p # ps) rv s =
     do {
       (rv', s') \<leftarrow> write_read_compare blkdev stepping block buflen (ucast retries) p s;
       for_patterns blkdev stepping block buflen retries ps rv' s'
     }"

text \<open>Steps 1 and 2 of \<^verbatim>\<open>burn_block\<close> (source lines 96 to 104): read the batch into
  \<^verbatim>\<open>buf_\<close>, zero \<^verbatim>\<open>buf_\<close> if that failed, run every pattern.\<close>

definition burn_block_test ::
  "'w env \<Rightarrow> u64 \<Rightarrow> u64 \<Rightarrow> u64 \<Rightarrow> u64 \<Rightarrow> byte list list \<Rightarrow> 'w state \<Rightarrow> (int \<times> 'w state) option" where
  "burn_block_test blkdev stepping block buflen retries patterns s =
     do {
       (rv, s1) \<leftarrow> for_retry (blkdev_read blkdev block stepping buflen) retries 0 (- 1) s;
       let s2 = (if rv < 0 then s1\<lparr>buf := memset (buf s1) 0 buflen\<rparr> else s1);
       for_patterns blkdev stepping block buflen retries patterns rv s2
     }"

text \<open>\<^verbatim>\<open>burn_block\<close>: Steps 1 and 2, then the restore loop (source lines 106 to 110), which
  writes \<^verbatim>\<open>buf_\<close> as it then is and whose last status is returned.\<close>

definition burn_block ::
  "'w env \<Rightarrow> u64 \<Rightarrow> u64 \<Rightarrow> u64 \<Rightarrow> u64 \<Rightarrow> byte list list \<Rightarrow> 'w state \<Rightarrow> (int \<times> 'w state) option" where
  "burn_block blkdev stepping block buflen retries patterns s =
     do {
       (rv, s3) \<leftarrow> burn_block_test blkdev stepping block buflen retries patterns s;
       for_retry (\<lambda>t. blkdev_write blkdev block stepping (buf t) buflen t) retries 0 (- 1) s3
     }"

text \<open>
  For stating what the restore loop of \<^verbatim>\<open>burn_block\<close> does: the state after \<open>n\<close> successive
  calls of \<open>op\<close>; the state after \<open>n\<close> attempts of the restore write, started in the state
  \<open>s3\<close> that Step 2 left; and the status that the device returns to the restore write
  attempted after \<open>k\<close> earlier attempts.
\<close>

primrec attempts :: "('w state \<Rightarrow> int \<times> 'w state) \<Rightarrow> nat \<Rightarrow> 'w state \<Rightarrow> 'w state" where
  "attempts op 0 s = s"
| "attempts op (Suc n) s = snd (op (attempts op n s))"

definition restore_attempts :: "'w env \<Rightarrow> u64 \<Rightarrow> u64 \<Rightarrow> u64 \<Rightarrow> nat \<Rightarrow> 'w state \<Rightarrow> 'w state" where
  "restore_attempts blkdev block stepping buflen n s3 =
     attempts (\<lambda>t. blkdev_write blkdev block stepping (buf t) buflen t) n s3"

definition restore_status :: "'w env \<Rightarrow> u64 \<Rightarrow> u64 \<Rightarrow> u64 \<Rightarrow> nat \<Rightarrow> 'w state \<Rightarrow> int" where
  "restore_status blkdev block stepping buflen k s3 =
     fst (dev_write blkdev (world (restore_attempts blkdev block stepping buflen k s3))
            block stepping (take (unat buflen) (buf s3)) buflen)"

text \<open>The four patterns \<^verbatim>\<open>burnin_loop\<close> builds.\<close>

definition burnin_patterns :: "u64 \<Rightarrow> byte list list" where
  "burnin_patterns buflen =
     [replicate (unat buflen) 0x00, replicate (unat buflen) 0x55,
      replicate (unat buflen) 0xAA, replicate (unat buflen) 0xFF]"

text \<open>The \<^verbatim>\<open>push_back\<close> loop of \<^verbatim>\<open>burnin_loop\<close>, source lines 169 and 170.\<close>

definition push_badblocks :: "u64 list \<Rightarrow> u64 \<Rightarrow> u64 \<Rightarrow> u64 list" where
  "push_badblocks badblocks block stepping =
     badblocks @ map (\<lambda>i. block + of_nat i) [0..<unat stepping]"

text \<open>
  The \<^verbatim>\<open>while\<close> loop of \<^verbatim>\<open>burnin_loop\<close>.  The loop variables are \<^verbatim>\<open>block\<close>, \<^verbatim>\<open>rv\<close> and the
  vector \<^verbatim>\<open>badblocks\<close>; the result is the returned \<^verbatim>\<open>rv\<close>, the final cursor (the source
  only prints it), the vector, and the state.  The calls of \<^verbatim>\<open>Info::print\<close>, \<^verbatim>\<open>Time\<close> and
  the \<^verbatim>\<open>SIGALRM\<close> bookkeeping only produce terminal output and are left out.
  \<^verbatim>\<open>block += stepping\<close> wraps at 64 bits; the loop may run forever (\<open>None\<close>).
  The parameter \<^verbatim>\<open>stepping_\<close> is written \<open>stepping0\<close>.
\<close>

partial_function (option) burnin_while ::
  "'w env \<Rightarrow> u64 \<Rightarrow> u64 \<Rightarrow> u64 \<Rightarrow> u64 \<Rightarrow> 32 word \<Rightarrow> byte list list \<Rightarrow>
   u64 \<Rightarrow> int \<Rightarrow> u64 list \<Rightarrow> 'w state \<Rightarrow> (int \<times> u64 \<times> u64 list \<times> 'w state) option" where
  [code]: "burnin_while blkdev end_block stepping0 buflen max_errors retries patterns block rv badblocks s =
     (if block < end_block then
        if signaled_to_exit blkdev (world s) then Some (rv, block, badblocks, s)
        else
          let stepping = trim_stepping blkdev block stepping0 in
          do {
            (rv', s') \<leftarrow> burn_block blkdev stepping0 block buflen (scast retries) patterns s;
            let block' = block + stepping in
            if rv' \<ge> 0 then
              burnin_while blkdev end_block stepping0 buflen max_errors retries patterns block' rv' badblocks s'
            else if rv' = - EINVAL then Some (rv', block', badblocks, s')
            else
              let badblocks' = push_badblocks badblocks block' stepping in
              if length badblocks' > unat max_errors then Some (rv', block', badblocks', s')
              else
                burnin_while blkdev end_block stepping0 buflen max_errors retries patterns block' rv' badblocks' s'
          }
      else Some (rv, block, badblocks, s))"

text \<open>\<^verbatim>\<open>burnin_loop\<close>.  The source declares \<^verbatim>\<open>rv\<close> without a value and returns it as it is
  when no batch is tested; that indeterminate value is the parameter \<open>rv0\<close>.\<close>

definition burnin_loop ::
  "'w env \<Rightarrow> u64 \<Rightarrow> u64 \<Rightarrow> u64 \<Rightarrow> u64 \<Rightarrow> u64 list \<Rightarrow> u64 \<Rightarrow> 32 word \<Rightarrow> int \<Rightarrow> 'w state \<Rightarrow>
   (int \<times> u64 \<times> u64 list \<times> 'w state) option" where
  "burnin_loop blkdev start_block end_block stepping0 buflen badblocks max_errors retries rv0 s =
     burnin_while blkdev end_block stepping0 buflen max_errors retries (burnin_patterns buflen)
       start_block rv0 badblocks s"

section \<open>Run parameters and the two \<^verbatim>\<open>burnin\<close> functions\<close>

text \<open>
  The fields of \<^verbatim>\<open>Options\<close> that \<^verbatim>\<open>bbf_burnin.cpp\<close> reads (\<^verbatim>\<open>options.hpp\<close> is not part of
  the sources; \<^verbatim>\<open>burnin\<close> copies \<^verbatim>\<open>opts.retries\<close> into an \<^verbatim>\<open>int\<close>).
\<close>

datatype RWType = ATA | OS

record Options =
  opt_device :: string
  opt_force :: bool
  opt_captcha :: string
  opt_input_file :: string
  opt_output_file :: string
  opt_rwtype :: RWType
  opt_retries :: "32 word"
  opt_stepping :: u64
  opt_start_block :: u64
  opt_end_block :: u64
  opt_max_errors :: u64

text \<open>
  Modelled from the spec: \<^verbatim>\<open>AppError\<close> (\<^verbatim>\<open>errors.hpp\<close> is not part of the sources).  One
  constructor per factory function that \<^verbatim>\<open>bbf_burnin.cpp\<close> calls, with its arguments;
  \<^verbatim>\<open>succeeded()\<close> holds of \<^verbatim>\<open>AppError::success()\<close> only.
\<close>

datatype AppError =
    Success
  | Runtime int string
  | OpeningDevice int string
  | Captcha string string
  | WritingBadblocksFile int string
  | ClosingDevice int string

fun succeeded :: "AppError \<Rightarrow> bool" where
  "succeeded Success = True"
| "succeeded _ = False"

text \<open>
  Modelled from the spec: \<^verbatim>\<open>math::round_down\<close> and \<^verbatim>\<open>math::round_up\<close> (\<^verbatim>\<open>math.hpp\<close> is not
  part of the sources): the number rounded down, respectively up, to a multiple of the
  second argument, in 64-bit unsigned arithmetic.  A zero multiple is a division by zero,
  which gives no result.  The functions of the program take the two helpers from the
  environment; these two definitions are the helpers of the scenario device below.
\<close>

definition round_down :: "u64 \<Rightarrow> u64 \<Rightarrow> u64 option" where
  "round_down number multiple =
     (if multiple = 0 then None else Some ((number div multiple) * multiple))"

definition round_up :: "u64 \<Rightarrow> u64 \<Rightarrow> u64 option" where
  "round_up number multiple =
     (if multiple = 0 then None else Some (((number + multiple - 1) div multiple) * multiple))"

text \<open>Source lines 197 to 205 of \<^verbatim>\<open>burnin\<close>: the stepping, the buffer length and the
  range handed to \<^verbatim>\<open>burnin_loop\<close>.\<close>

definition burnin_range :: "'w env \<Rightarrow> Options \<Rightarrow> (u64 \<times> u64 \<times> u64 \<times> u64) option" where
  "burnin_range blkdev opts =
     (let stepping = (if opt_stepping opts = 0 then block_stepping blkdev else opt_stepping opts);
          buflen = stepping * logical_block_size blkdev
      in do {
        start_block \<leftarrow> math_round_down blkdev (opt_start_block opts) stepping;
        let end_block = min (opt_end_block opts) (logical_block_count blkdev);
        end_block \<leftarrow> math_round_up blkdev end_block stepping;
        let end_block = min end_block (logical_block_count blkdev);
        Some (stepping, buflen, start_block, end_block)
      })"

text \<open>
  \<^verbatim>\<open>burnin(blkdev,opts,badblocks)\<close>.  \<^verbatim>\<open>new char[buflen]\<close> has indeterminate contents: the
  parameter \<open>buf0\<close> gives the byte at each index.  No result (\<open>None\<close>) stands for a run
  that does not return.
\<close>

definition burnin_dev ::
  "'w env \<Rightarrow> Options \<Rightarrow> int \<Rightarrow> (nat \<Rightarrow> byte) \<Rightarrow> u64 list \<Rightarrow> 'w \<Rightarrow> (AppError \<times> u64 list \<times> 'w state) option" where
  "burnin_dev blkdev opts rv0 buf0 badblocks w =
     do {
       (stepping, buflen, start_block, end_block) \<leftarrow> burnin_range blkdev opts;
       (rv, block, badblocks', s) \<leftarrow>
          burnin_loop blkdev start_block end_block stepping buflen badblocks
            (opt_max_errors opts) (opt_retries opts) rv0
            \<lparr>world = w, buf = map buf0 [0..<unat buflen], iolog = []\<rparr>;
       Some (if rv < 0 then Runtime (- rv) ''error when performing burnin'' else Success,
             badblocks', s)
     }"

definition set_blkdev_rwtype :: "'w env \<Rightarrow> RWType \<Rightarrow> 'w \<Rightarrow> 'w" where
  "set_blkdev_rwtype blkdev rwtype w =
     (case rwtype of ATA \<Rightarrow> set_rw_ata blkdev w | OS \<Rightarrow> set_rw_os blkdev w)"

text \<open>\<^verbatim>\<open>burnin(opts)\<close>, the operation \<^verbatim>\<open>bbf::burnin\<close> exports.\<close>

definition burnin :: "'w env \<Rightarrow> Options \<Rightarrow> int \<Rightarrow> (nat \<Rightarrow> byte) \<Rightarrow> 'w \<Rightarrow> (AppError \<times> 'w) option" where
  "burnin blkdev opts rv0 buf0 w =
     (case open_rdwr blkdev w (opt_device opts) (\<not> opt_force opts) of (rv, w1) \<Rightarrow>
      if rv < 0 then Some (OpeningDevice (- rv) (opt_device opts), w1)
      else
        let captcha = captcha_calculate blkdev w1 in
        if opt_captcha opts \<noteq> captcha then Some (Captcha (opt_captcha opts) captcha, w1)
        else
          let output_file = (if opt_output_file opts = [] then badblockfile_filepath blkdev w1
                             else opt_output_file opts);
              input_file = (if opt_input_file opts = [] then output_file else opt_input_file opts)
          in case badblockfile_read blkdev w1 input_file of (rv, badblocks, w2) \<Rightarrow>
            do {
              (err, badblocks', s) \<leftarrow>
                 burnin_dev blkdev opts rv0 buf0 badblocks (set_blkdev_rwtype blkdev (opt_rwtype opts) w2);
              case badblockfile_write blkdev (world s) output_file badblocks' of (rv, w4) \<Rightarrow>
                let err = (if rv < 0 \<and> succeeded err then WritingBadblocksFile (- rv) output_file
                           else err)
                in case dev_close blkdev w4 of (rv, w5) \<Rightarrow>
                  let err = (if rv < 0 \<and> succeeded err then ClosingDevice (- rv) (opt_device opts)
                             else err)
                  in Some (err, w5)
            })"

section \<open>A device for the scenarios\<close>

text \<open>
  A device in memory, for evaluating the functions above at concrete inputs.  Each batch
  keeps the bytes last written at its first block; \<open>rfault\<close> and \<open>wfault\<close> give the status
  of the \<open>n\<close>-th read, respectively write, at a block (counted from 0).  A failed call
  leaves buffer and contents as they were; on a \<open>stuck\<close> device a write that reports
  success stores nothing.  The bad-block file holds \<open>bbfile\<close>, and saving returns
  \<open>save_status\<close>.  The rounding helpers are \<open>round_down\<close> and \<open>round_up\<close> above.
\<close>

record mock =
  mem :: "u64 \<Rightarrow> byte list"
  nreads :: "u64 \<Rightarrow> nat"
  nwrites :: "u64 \<Rightarrow> nat"
  stop_requested :: bool
  stuck :: bool
  bbfile :: "u64 list"
  save_status :: int

definition mock_env ::
  "u64 \<Rightarrow> u64 \<Rightarrow> u64 \<Rightarrow> (u64 \<Rightarrow> nat \<Rightarrow> int) \<Rightarrow> (u64 \<Rightarrow> nat \<Rightarrow> int) \<Rightarrow> mock env" where
  "mock_env nblocks bsize dflt rfault wfault =
     \<lparr> logical_block_count = nblocks,
       logical_block_size = bsize,
       block_stepping = dflt,
       dev_read = (\<lambda>w block n b len.
          let rv = rfault block (nreads w block);
              w' = w\<lparr>nreads := (nreads w)(block := Suc (nreads w block))\<rparr>
          in (rv, if rv < 0 then b else take (unat len) (mem w block) @ drop (unat len) b, w')),
       dev_write = (\<lambda>w block n d len.
          let rv = wfault block (nwrites w block);
              w' = w\<lparr>nwrites := (nwrites w)(block := Suc (nwrites w block))\<rparr>
          in (rv, if rv < 0 \<or> stuck w then w' else w'\<lparr>mem := (mem w')(block := d)\<rparr>)),
       signaled_to_exit = stop_requested,
       open_rdwr = (\<lambda>w path excl. (0, w)),
       dev_close = (\<lambda>w. (0, w)),
       set_rw_ata = (\<lambda>w. w),
       set_rw_os = (\<lambda>w. w),
       captcha_calculate = (\<lambda>w. ''captcha''),
       badblockfile_filepath = (\<lambda>w. ''badblocks''),
       badblockfile_read = (\<lambda>w path. (0, bbfile w, w)),
       badblockfile_write = (\<lambda>w path bb. (save_status w, if save_status w < 0 then w else w\<lparr>bbfile := bb\<rparr>)),
       math_round_down = round_down,
       math_round_up = round_up \<rparr>"

definition mock0 :: "nat \<Rightarrow> byte \<Rightarrow> mock" where
  "mock0 len c =
     \<lparr> mem = (\<lambda>b. replicate len c), nreads = (\<lambda>b. 0), nwrites = (\<lambda>b. 0),
       stop_requested = False, stuck = False, bbfile = [], save_status = 0 \<rparr>"

text \<open>The contents of a device on which writes report success and store nothing.\<close>

definition mock_stuck :: "nat \<Rightarrow> byte \<Rightarrow> mock" where
  "mock_stuck len c = (mock0 len c)\<lparr>stuck := True\<rparr>"

text \<open>The contents of a device whose bad-block file cannot be saved, and of one whose
  bad-block file already lists five blocks.\<close>

definition mock_nosave :: "nat \<Rightarrow> byte \<Rightarrow> mock" where
  "mock_nosave len c = (mock0 len c)\<lparr>save_status := - EIO\<rparr>"

definition mock_imported :: "nat \<Rightarrow> byte \<Rightarrow> mock" where
  "mock_imported len c = (mock0 len c)\<lparr>bbfile := [7, 8, 9, 10, 11]\<rparr>"

definition st0 :: "'w \<Rightarrow> byte list \<Rightarrow> 'w state" where
  "st0 w b = \<lparr>world = w, buf = b, iolog = []\<rparr>"

text \<open>Fault schedules: no fault at all, and a block whose four pattern writes succeed
  while every later write to it (the restore write and its retries) returns \<open>e\<close>.\<close>

definition no_fault :: "u64 \<Rightarrow> nat \<Rightarrow> int" where
  "no_fault b n = 0"

definition restore_fault :: "u64 \<Rightarrow> int \<Rightarrow> u64 \<Rightarrow> nat \<Rightarrow> int" where
  "restore_fault bad e b n = (if b = bad \<and> 4 \<le> n then e else 0)"

text \<open>A healthy device of \<open>n\<close> one-byte blocks with default stepping \<open>k\<close>.\<close>

definition dev_ok :: "u64 \<Rightarrow> u64 \<Rightarrow> mock env" where
  "dev_ok n k = mock_env n 1 k no_fault no_fault"

text \<open>The device of the end-to-end scenario B: 1000 blocks, stepping 100, and the restore
  write at block 300 always fails with \<^verbatim>\<open>EIO\<close>.\<close>

definition devB :: "mock env" where
  "devB = mock_env 1000 1 100 no_fault (restore_fault 300 (- EIO))"

text \<open>Two blocks, stepping 1: the first read of each block returns \<^verbatim>\<open>EINVAL\<close>, every
  later read and every write succeeds.\<close>

definition dev_einval_read :: "mock env" where
  "dev_einval_read = mock_env 2 1 1 (\<lambda>b n. if n = 0 then - EINVAL else 0) no_fault"

text \<open>Two blocks, stepping 1: the restore write at block 0 returns \<^verbatim>\<open>EINVAL\<close>.\<close>

definition dev_einval_restore :: "mock env" where
  "dev_einval_restore = mock_env 2 1 1 no_fault (restore_fault 0 (- EINVAL))"

text \<open>Two blocks, stepping 1: the restore write at block 0 fails with \<^verbatim>\<open>EIO\<close>.\<close>

definition dev_bad0 :: "mock env" where
  "dev_bad0 = mock_env 2 1 1 no_fault (restore_fault 0 (- EIO))"

text \<open>Run parameters for the scenarios: retries 2, output file given, the captcha of the
  device above.\<close>

definition opts_scenario :: "u64 \<Rightarrow> u64 \<Rightarrow> u64 \<Rightarrow> u64 \<Rightarrow> Options" where
  "opts_scenario start_block end_block stepping max_errors =
     \<lparr> opt_device = ''/dev/sdx'', opt_force = False, opt_captcha = ''captcha'',
       opt_input_file = [], opt_output_file = ''badblocks'', opt_rwtype = OS,
       opt_retries = 2, opt_stepping = stepping, opt_start_block = start_block,
       opt_end_block = end_block, opt_max_errors = max_errors \<rparr>"

section \<open>Unfolding the loops\<close>

lemma for_retry_continue:
  "i \<le> retries \<Longrightarrow> rv < 0 \<Longrightarrow>
   for_retry op retries i rv s = for_retry op retries (i + 1) (fst (op s)) (snd (op s))"
  by (subst for_retry.simps) simp

lemma for_retry_stop:
  "\<not> (i \<le> retries \<and> rv < 0) \<Longrightarrow> for_retry op retries i rv s = Some (rv, s)"
  by (subst for_retry.simps) auto


lemma burnin_while_done:
  "\<not> block < end_block \<Longrightarrow>
   burnin_while blkdev end_block stepping0 buflen max_errors retries patterns block rv badblocks s =
     Some (rv, block, badblocks, s)"
  by (subst burnin_while.simps) simp

lemma burnin_while_signaled:
  "block < end_block \<Longrightarrow> signaled_to_exit blkdev (world s) \<Longrightarrow>
   burnin_while blkdev end_block stepping0 buflen max_errors retries patterns block rv badblocks s =
     Some (rv, block, badblocks, s)"
  by (subst burnin_while.simps) simp

lemma burnin_while_step:
  "block < end_block \<Longrightarrow> \<not> signaled_to_exit blkdev (world s) \<Longrightarrow>
   burnin_while blkdev end_block stepping0 buflen max_errors retries patterns block rv badblocks s =
     (case burn_block blkdev stepping0 block buflen (scast retries) patterns s of
        None \<Rightarrow> None
      | Some (rv', s') \<Rightarrow>
          if 0 \<le> rv' then
            burnin_while blkdev end_block stepping0 buflen max_errors retries patterns
              (block + trim_stepping blkdev block stepping0) rv' badblocks s'
          else if rv' = - EINVAL then
            Some (rv', block + trim_stepping blkdev block stepping0, badblocks, s')
          else if unat max_errors <
                  length (push_badblocks badblocks (block + trim_stepping blkdev block stepping0)
                            (trim_stepping blkdev block stepping0)) then
            Some (rv', block + trim_stepping blkdev block stepping0,
                  push_badblocks badblocks (block + trim_stepping blkdev block stepping0)
                    (trim_stepping blkdev block stepping0), s')
          else
            burnin_while blkdev end_block stepping0 buflen max_errors retries patterns
              (block + trim_stepping blkdev block stepping0) rv'
              (push_badblocks badblocks (block + trim_stepping blkdev block stepping0)
                 (trim_stepping blkdev block stepping0)) s')"
  by (subst burnin_while.simps) (simp add: Let_def split: option.split)

lemma bind_weak_cong: "m = m' \<Longrightarrow> Option.bind m f = Option.bind m' f"
  by simp

text \<open>Steps 1 and 2 without the \<open>let\<close>, so that evaluation at a concrete state runs
  Step 1 before it looks at Step 2.\<close>

lemma burn_block_test_eval:
  "burn_block_test blkdev stepping block buflen retries patterns s =
     (case for_retry (blkdev_read blkdev block stepping buflen) retries 0 (- 1) s of
        None \<Rightarrow> None
      | Some (rv, s1) \<Rightarrow>
          for_patterns blkdev stepping block buflen retries patterns rv
            (if rv < 0 then s1\<lparr>buf := memset (buf s1) 0 buflen\<rparr> else s1))"
  by (simp add: burn_block_test_def Let_def split: option.split)

lemmas eval_simps =
  burnin_loop_def burnin_while_done burnin_while_signaled burnin_while_step
  burn_block_def burn_block_test_eval write_read_compare_def burnin_patterns_def
  for_retry_continue for_retry_stop blkdev_read_def blkdev_write_def
  mock_env_def mock0_def mock_stuck_def mock_nosave_def mock_imported_def st0_def no_fault_def restore_fault_def
  memcmp_def memset_def Let_def EIO_def EINVAL_def trim_stepping_def push_badblocks_def
  dev_ok_def devB_def dev_einval_read_def dev_einval_restore_def dev_bad0_def burnin_dev_def burnin_range_def round_down_def round_up_def opts_scenario_def

section \<open>The retry loop\<close>

lemma unat_suc_le:
  fixes i retries :: u64
  assumes "i \<le> retries" "retries \<noteq> - 1"
  shows "unat (i + 1) = Suc (unat i)"
proof -
  have "i \<noteq> - 1"
    using assms by (auto simp: word_order.extremum_unique)
  then have "1 + i \<noteq> 0"
    using max_word_wrap [of i] by (auto simp: add.commute)
  then show ?thesis
    using unatSuc [of i] by (simp add: add.commute)
qed


section \<open>Termination of the loops\<close>










section \<open>The Stepping Calculator\<close>

text \<open>
  C6.  For every position \<open>p\<close> and requested stepping \<open>s\<close>: at or beyond the device's block
  count \<^verbatim>\<open>trim_stepping\<close> returns 0, below it the minimum of \<open>s\<close> and the remaining blocks;
  so where \<open>p + s\<close> exceeds the block count (as a natural number, or as the wrapped 64-bit
  sum) it returns exactly the remaining blocks.
\<close>

theorem trim_stepping_spec:
  "(logical_block_count blkdev \<le> p \<longrightarrow> trim_stepping blkdev p s = 0) \<and>
   (p < logical_block_count blkdev \<longrightarrow>
      trim_stepping blkdev p s = min s (logical_block_count blkdev - p)) \<and>
   (p < logical_block_count blkdev \<and>
    (unat (logical_block_count blkdev) < unat p + unat s \<or> logical_block_count blkdev < p + s) \<longrightarrow>
      trim_stepping blkdev p s = logical_block_count blkdev - p)"
proof (intro conjI impI)
  assume "logical_block_count blkdev \<le> p"
  then show "trim_stepping blkdev p s = 0"
    by (cases "logical_block_count blkdev = p") (auto simp: trim_stepping_def Let_def)
next
  assume "p < logical_block_count blkdev"
  then show "trim_stepping blkdev p s = min s (logical_block_count blkdev - p)"
    by (auto simp: trim_stepping_def Let_def min_def)
next
  assume a: "p < logical_block_count blkdev \<and>
    (unat (logical_block_count blkdev) < unat p + unat s \<or> logical_block_count blkdev < p + s)"
  then have lt: "unat p < unat (logical_block_count blkdev)"
    by (simp add: word_less_nat_alt)
  have big: "unat (logical_block_count blkdev) < unat p + unat s"
  proof (cases "unat p + unat s < 2 ^ 64")
    case True
    then have "unat (p + s) = unat p + unat s"
      using unat_add_lem [of p s] by simp
    with a show ?thesis
      by (auto simp: word_less_nat_alt)
  next
    case False
    have "unat (logical_block_count blkdev) < 2 ^ 64"
      using unsigned_less [of "logical_block_count blkdev"] by simp
    with False show ?thesis by linarith
  qed
  have "unat (logical_block_count blkdev - p) = unat (logical_block_count blkdev) - unat p"
    using lt by (simp add: unat_sub word_le_nat_alt)
  with big lt have "logical_block_count blkdev - p \<le> s"
    by (simp add: word_le_nat_alt)
  with a show "trim_stepping blkdev p s = logical_block_count blkdev - p"
    by (auto simp: trim_stepping_def Let_def min_def)
qed

theorem trim_stepping_spec_witness:
  "logical_block_count (dev_ok 1000 100) \<le> 1000 \<and> trim_stepping (dev_ok 1000 100) 1000 100 = 0 \<and>
   950 < logical_block_count (dev_ok 1000 100) \<and>
   unat (logical_block_count (dev_ok 1000 100)) < unat (950 :: u64) + unat (100 :: u64) \<and>
   trim_stepping (dev_ok 1000 100) 950 100 = 50 \<and>
   trim_stepping (dev_ok 1000 100) 950 100 = min 100 (logical_block_count (dev_ok 1000 100) - 950)"
  using trim_stepping_spec [of "dev_ok 1000 100" 1000 100]
    trim_stepping_spec [of "dev_ok 1000 100" 950 100]
  by (simp add: dev_ok_def mock_env_def)

section \<open>A zero batch size\<close>






section \<open>Which blocks are recorded, written back and accessed\<close>

text \<open>
  C1.  The claim: when the batch starting at block \<open>b\<close> of size \<open>s\<close> is bad, the addresses
  \<open>b, ..., b + s - 1\<close> are appended; in scenario B (1000 blocks, stepping 100, retries 2,
  at most 5 errors, the restore write at block 300 always failing) the list ends up as
  the blocks 300 to 399.  The code advances \<^verbatim>\<open>block\<close> by the batch size before the
  \<^verbatim>\<open>push_back\<close> loop reads it: in scenario B the bad batch is the one at block 300 (the last
  device call is its failed restore write), and the list ends up as the blocks 400 to 499.
\<close>

theorem scenario_B_records_next_batch:
  "map_option (\<lambda>(rv, block, badblocks, s). (rv, block, badblocks, last (iolog s)))
     (burnin_loop devB 0 1000 100 100 [] 5 2 0 (st0 (mock0 100 0x11) (replicate 100 0))) =
   Some (- EIO, 400, map (\<lambda>i. 400 + of_nat i) [0..<100],
         IoWrite 300 100 (replicate 100 0xFF) (- EIO)) \<and>
   map (\<lambda>i. (400 :: u64) + of_nat i) [0..<100] \<noteq> map (\<lambda>i. 300 + of_nat i) [0..<100]"
proof
  show "map_option (\<lambda>(rv, block, badblocks, s). (rv, block, badblocks, last (iolog s)))
     (burnin_loop devB 0 1000 100 100 [] 5 2 0 (st0 (mock0 100 0x11) (replicate 100 0))) =
   Some (- EIO, 400, map (\<lambda>i. 400 + of_nat i) [0..<100],
         IoWrite 300 100 (replicate 100 0xFF) (- EIO))"
    by (simp add: eval_simps devB_def cong: bind_weak_cong)
  show "map (\<lambda>i. (400 :: u64) + of_nat i) [0..<100] \<noteq> map (\<lambda>i. 300 + of_nat i) [0..<100]"
  proof
    assume "map (\<lambda>i. (400 :: u64) + of_nat i) [0..<100] = map (\<lambda>i. 300 + of_nat i) [0..<100]"
    then have "\<forall>i\<in>set [0..<100]. (400 :: u64) + of_nat i = 300 + of_nat i"
      by (simp only: map_eq_conv)
    then have "(400 :: u64) + of_nat 0 = 300 + of_nat 0"
      by (rule bspec) simp
    then show False by simp
  qed
qed

text \<open>
  C2.  The claim: the restore write of Step 3 writes back what Step 1 captured.  The code
  lets \<^verbatim>\<open>write_read_compare\<close> read each pattern back into the same buffer, so Step 3 writes
  what the last read-back left there.  On a healthy two-block device holding \<open>0x11\<close> in
  every byte, Step 1 captures \<open>0x11 0x11\<close>; \<^verbatim>\<open>burn_block\<close> returns success, its last device
  call is the write of \<open>0xFF 0xFF\<close>, and that is what the device holds afterwards.
\<close>

theorem restore_writes_last_pattern:
  "map_option (\<lambda>(rv, s). buf s)
     (for_retry (blkdev_read (dev_ok 2 2) 0 2 2) 2 0 (- 1) (st0 (mock0 2 0x11) [0, 0])) =
     Some (replicate 2 0x11) \<and>
   map_option (\<lambda>(rv, s). (rv, last (iolog s), mem (world s) 0))
     (burn_block (dev_ok 2 2) 2 0 2 2 (burnin_patterns 2) (st0 (mock0 2 0x11) [0, 0])) =
     Some (0, IoWrite 0 2 (replicate 2 0xFF) 0, replicate 2 0xFF)"
  by (simp add: eval_simps cong: bind_weak_cong)

text \<open>
  C3.  The claim: no device call of a run covers a block at or beyond the block count,
  because the Step Tester is invoked with the truncated batch size.  The code computes
  the truncated size and uses it for the cursor only; \<^verbatim>\<open>burn_block\<close> is called with the
  untruncated \<^verbatim>\<open>stepping_\<close>.  On a healthy device of 3 blocks with stepping 2, \<^verbatim>\<open>burnin\<close>
  tests the range 0 to 3; at block 2 the truncated size is 1, the device calls are issued
  for 2 blocks, and they cover block 3.
\<close>

theorem final_batch_reaches_past_device_end:
  "burnin_range (dev_ok 3 2) (opts_scenario 0 3 2 5) = Some (2, 2, 0, 3) \<and>
   trim_stepping (dev_ok 3 2) 2 2 = 1 \<and>
   map_option (\<lambda>(e, bb, s). (e, bb, last (iolog s), io_covers (last (iolog s)) 3))
     (burnin_dev (dev_ok 3 2) (opts_scenario 0 3 2 5) 0 (\<lambda>i. 0) [] (mock0 2 0x11)) =
   Some (Success, [], IoWrite 2 2 (replicate 2 0xFF) 0, True)"
  by (simp add: eval_simps cong: bind_weak_cong)

section \<open>Invalid-parameter failures\<close>




section \<open>Saving the bad-block list\<close>

text \<open>
  C8 (as amended).  When the device opens, the captcha matches and the run returns, and
  saving the bad-block list then fails, the result of \<^verbatim>\<open>burnin\<close> is the error of the save
  (\<^verbatim>\<open>writing_badblocks_file\<close> with the errno of the failure) if the run had succeeded: the
  successful result is replaced.  A failed run keeps its own error; it is the failed
  result that a save failure does not overwrite.
\<close>

theorem save_failure_replaces_success:
  assumes "open_rdwr blkdev w (opt_device opts) (\<not> opt_force opts) = (rv1, w1)"
    and "0 \<le> rv1"
    and "opt_captcha opts = captcha_calculate blkdev w1"
    and "output_file = (if opt_output_file opts = [] then badblockfile_filepath blkdev w1
                        else opt_output_file opts)"
    and "input_file = (if opt_input_file opts = [] then output_file else opt_input_file opts)"
    and "badblockfile_read blkdev w1 input_file = (rv2, imported, w2)"
    and "burnin_dev blkdev opts rv0 buf0 imported (set_blkdev_rwtype blkdev (opt_rwtype opts) w2) =
           Some (err, badblocks', s)"
    and "badblockfile_write blkdev (world s) output_file badblocks' = (rv3, w4)"
    and "rv3 < 0"
  shows "map_option fst (burnin blkdev opts rv0 buf0 w) =
           Some (if succeeded err then WritingBadblocksFile (- rv3) output_file else err)"
proof -
  note rd = assms(6) [unfolded assms(5) assms(4)]
  note wr = assms(8) [unfolded assms(4)]
  have "burnin blkdev opts rv0 buf0 w =
          Some (if succeeded err then WritingBadblocksFile (- rv3) output_file else err,
                snd (dev_close blkdev w4))"
    unfolding burnin_def Let_def assms(1) prod.case
    using assms(2,3,9)
    by (simp add: rd assms(7) wr assms(4) split: prod.split del: if_split cong: if_cong)
  then show ?thesis by simp
qed

theorem save_failure_replaces_success_witness:
  "open_rdwr (dev_ok 1 1) (mock_nosave 1 0x11) (opt_device (opts_scenario 0 1 1 5))
     (\<not> opt_force (opts_scenario 0 1 1 5)) = (0, mock_nosave 1 0x11) \<and>
   opt_captcha (opts_scenario 0 1 1 5) = captcha_calculate (dev_ok 1 1) (mock_nosave 1 0x11) \<and>
   badblockfile_read (dev_ok 1 1) (mock_nosave 1 0x11) ''badblocks'' = (0, [], mock_nosave 1 0x11) \<and>
   map_option fst (burnin_dev (dev_ok 1 1) (opts_scenario 0 1 1 5) 0 (\<lambda>i. 0) []
     (set_blkdev_rwtype (dev_ok 1 1) (opt_rwtype (opts_scenario 0 1 1 5)) (mock_nosave 1 0x11))) =
     Some Success \<and>
   fst (badblockfile_write (dev_ok 1 1)
     (world (snd (snd (the (burnin_dev (dev_ok 1 1) (opts_scenario 0 1 1 5) 0 (\<lambda>i. 0) []
        (set_blkdev_rwtype (dev_ok 1 1) (opt_rwtype (opts_scenario 0 1 1 5)) (mock_nosave 1 0x11)))))))
     ''badblocks'' []) = - EIO \<and>
   map_option fst (burnin (dev_ok 1 1) (opts_scenario 0 1 1 5) 0 (\<lambda>i. 0) (mock_nosave 1 0x11)) =
     Some (WritingBadblocksFile EIO ''badblocks'')"
proof -
  let ?D = "dev_ok 1 1" and ?O = "opts_scenario 0 1 1 5" and ?W = "mock_nosave 1 0x11"
  let ?R = "burnin_dev ?D ?O 0 (\<lambda>i. 0) [] (set_blkdev_rwtype ?D (opt_rwtype ?O) ?W)"
  let ?S = "snd (snd (the ?R))"
  have h1: "open_rdwr ?D ?W (opt_device ?O) (\<not> opt_force ?O) = (0, ?W)"
    by (simp add: dev_ok_def mock_env_def)
  have h2: "(0 :: int) \<le> 0" by simp
  have h3: "opt_captcha ?O = captcha_calculate ?D ?W"
    by (simp add: dev_ok_def mock_env_def opts_scenario_def)
  have h4: "''badblocks'' = (if opt_output_file ?O = [] then badblockfile_filepath ?D ?W
                             else opt_output_file ?O)"
    by (simp add: opts_scenario_def)
  have h5: "''badblocks'' = (if opt_input_file ?O = [] then ''badblocks'' else opt_input_file ?O)"
    by (simp add: opts_scenario_def)
  have h6: "badblockfile_read ?D ?W ''badblocks'' = (0, [], ?W)"
    by (simp add: dev_ok_def mock_env_def mock_nosave_def mock0_def)
  have h7: "?R = Some (Success, [], ?S)"
    by (simp add: eval_simps set_blkdev_rwtype_def cong: bind_weak_cong)
  have h8: "badblockfile_write ?D (world ?S) ''badblocks'' [] = (- EIO, world ?S)"
    by (simp add: eval_simps set_blkdev_rwtype_def cong: bind_weak_cong)
  have h9: "- EIO < 0" by (simp add: EIO_def)
  have c: "map_option fst (burnin ?D ?O 0 (\<lambda>i. 0) ?W) = Some (WritingBadblocksFile EIO ''badblocks'')"
    using save_failure_replaces_success [OF h1 h2 h3 h4 h5 h6 h7 h8 h9] by simp
  have c4: "map_option fst ?R = Some Success"
    by (subst h7) simp
  have c5: "fst (badblockfile_write ?D (world ?S) ''badblocks'' []) = - EIO"
    by (simp only: h8 fst_conv)
  from h1 h3 h6 c4 c5 c show ?thesis by blast
qed

text \<open>A healthy one-block device whose bad-block file cannot be saved: the run succeeds,
  and \<^verbatim>\<open>burnin\<close> returns the error of the save.\<close>

theorem save_failure_counterexample:
  "map_option fst (burnin_dev (dev_ok 1 1) (opts_scenario 0 1 1 5) 0 (\<lambda>i. 0) [] (mock_nosave 1 0x11)) =
     Some Success \<and>
   map_option fst (burnin (dev_ok 1 1) (opts_scenario 0 1 1 5) 0 (\<lambda>i. 0) (mock_nosave 1 0x11)) =
     Some (WritingBadblocksFile EIO ''badblocks'') \<and>
   \<not> succeeded (WritingBadblocksFile EIO ''badblocks'')"
  by (simp add: burnin_def set_blkdev_rwtype_def eval_simps cong: bind_weak_cong)

section \<open>The outcome of the Step Tester\<close>

lemma attempts_shift: "attempts op n (snd (op s)) = attempts op (Suc n) s"
  by (induction n) simp_all

text \<open>
  What a run of the retry loop computes: it stops after some number \<open>m\<close> of calls of \<open>op\<close>;
  the result is the status of the last call (the initial \<open>rv\<close> if there was none); every
  earlier call failed; and a negative result means that the bound ended the loop.
\<close>

lemma for_retry_attempts:
  assumes run: "for_retry op retries i rv s = Some r"
  shows "\<exists>m. snd r = attempts op m s \<and>
           (m = 0 \<longrightarrow> fst r = rv) \<and>
           (0 < m \<longrightarrow> fst r = fst (op (attempts op (m - 1) s))) \<and>
           (\<forall>k. Suc k < m \<longrightarrow> fst (op (attempts op k s)) < 0) \<and>
           ((m \<noteq> 0) = (i \<le> retries \<and> rv < 0)) \<and>
           (fst r < 0 \<longrightarrow> retries \<noteq> - 1 \<and> (i \<le> retries \<longrightarrow> unat i + m = Suc (unat retries)))"
  using run
proof (induction op retries i rv s r rule: for_retry.raw_induct)
  case (1 for_retry' op retries i rv s r)
  note run = \<open>for_retry op retries i rv s = Some r\<close>
  show ?case
  proof (cases "i \<le> retries \<and> rv < 0")
    case False
    with "1.hyps" have r: "r = (rv, s)" by auto
    have "fst r < 0 \<longrightarrow> retries \<noteq> - 1 \<and> (i \<le> retries \<longrightarrow> unat i + (0 :: nat) = Suc (unat retries))"
      using False r by (auto simp: word_order.extremum_unique)
    then show ?thesis
      using False r by (intro exI [of _ 0]) auto
  next
    case True
    let ?rv1 = "fst (op s)" and ?s1 = "snd (op s)"
    from True "1.hyps" have run1: "for_retry' op retries (i + 1) ?rv1 ?s1 = Some r"
      by simp
    from True run have run2: "for_retry op retries (i + 1) ?rv1 ?s1 = Some r"
      by (simp add: for_retry_continue)
    have "\<exists>m. snd r = attempts op m ?s1 \<and>
           (m = 0 \<longrightarrow> fst r = ?rv1) \<and>
           (0 < m \<longrightarrow> fst r = fst (op (attempts op (m - 1) ?s1))) \<and>
           (\<forall>k. Suc k < m \<longrightarrow> fst (op (attempts op k ?s1)) < 0) \<and>
           ((m \<noteq> 0) = (i + 1 \<le> retries \<and> ?rv1 < 0)) \<and>
           (fst r < 0 \<longrightarrow> retries \<noteq> - 1 \<and> (i + 1 \<le> retries \<longrightarrow> unat (i + 1) + m = Suc (unat retries)))"
      using run1 run2 by (rule "1.IH")
    then obtain m where
      ih: "snd r = attempts op m ?s1"
          "m = 0 \<longrightarrow> fst r = ?rv1"
          "0 < m \<longrightarrow> fst r = fst (op (attempts op (m - 1) ?s1))"
          "\<forall>k. Suc k < m \<longrightarrow> fst (op (attempts op k ?s1)) < 0"
          "(m \<noteq> 0) = (i + 1 \<le> retries \<and> ?rv1 < 0)"
          "fst r < 0 \<longrightarrow> retries \<noteq> - 1 \<and> (i + 1 \<le> retries \<longrightarrow> unat (i + 1) + m = Suc (unat retries))"
      by blast
    have a: "snd r = attempts op (Suc m) s"
      using ih(1) by (simp only: attempts_shift)
    have b: "fst r = fst (op (attempts op (Suc m - 1) s))"
    proof (cases m)
      case 0
      with ih(2) show ?thesis by simp
    next
      case (Suc j)
      with ih(3) have "fst r = fst (op (attempts op j ?s1))" by simp
      then show ?thesis
        using Suc by (simp only: attempts_shift diff_Suc_1)
    qed
    have c: "fst (op (attempts op k s)) < 0" if "Suc k < Suc m" for k
    proof (cases k)
      case 0
      from that 0 have "m \<noteq> 0" by simp
      with ih(5) have "?rv1 < 0" by simp
      with 0 show ?thesis by simp
    next
      case (Suc j)
      with that have "Suc j < m" by simp
      with ih(4) have "fst (op (attempts op j ?s1)) < 0" by blast
      then show ?thesis
        using Suc by (simp only: attempts_shift)
    qed
    have cnt: "unat i + Suc m = Suc (unat retries)" if neg: "fst r < 0"
    proof -
      from neg ih(6) have nm: "retries \<noteq> - 1" by simp
      with True have u: "unat (i + 1) = Suc (unat i)"
        using unat_suc_le [of i retries] by blast
      show ?thesis
      proof (cases "i + 1 \<le> retries")
        case True
        with neg ih(6) u show ?thesis by simp
      next
        case False
        with ih(5) have "m = 0" by auto
        moreover from False u True have "unat i = unat retries"
          by (simp add: word_le_nat_alt)
        ultimately show ?thesis by simp
      qed
    qed
    have d: "fst r < 0 \<longrightarrow> retries \<noteq> - 1 \<and> (i \<le> retries \<longrightarrow> unat i + Suc m = Suc (unat retries))"
      using cnt ih(6) by blast
    have e: "(Suc m \<noteq> 0) = (i \<le> retries \<and> rv < 0)"
      using True by simp
    show ?thesis
      using a b c d e by (intro exI [of _ "Suc m"]) (simp del: attempts.simps)
  qed
qed (fact run)

text \<open>The restore write leaves the buffer alone, so every attempt writes the same bytes;
  its status is the one the device returns, and each attempt adds one entry to the log.\<close>

lemma buf_restore_attempts:
  "buf (restore_attempts blkdev block stepping buflen n s3) = buf s3"
  by (induction n) (simp_all add: restore_attempts_def blkdev_write_def split: prod.split)

lemma fst_restore_write:
  "fst (blkdev_write blkdev block stepping (buf s3) buflen
          (restore_attempts blkdev block stepping buflen k s3)) =
     restore_status blkdev block stepping buflen k s3"
  by (simp add: restore_status_def blkdev_write_def split: prod.split)

lemma world_restore_attempts:
  "world (restore_attempts blkdev block stepping buflen (Suc n) s3) =
     snd (dev_write blkdev (world (restore_attempts blkdev block stepping buflen n s3))
            block stepping (take (unat buflen) (buf s3)) buflen)"
proof -
  have "buf (attempts (\<lambda>t. blkdev_write blkdev block stepping (buf t) buflen t) n s3) = buf s3"
    using buf_restore_attempts [of blkdev block stepping buflen n s3]
    by (simp add: restore_attempts_def)
  then show ?thesis
    by (simp add: restore_attempts_def blkdev_write_def split: prod.split)
qed

lemma iolog_restore_attempts:
  "iolog (restore_attempts blkdev block stepping buflen n s3) =
     iolog s3 @ map (\<lambda>k. IoWrite block stepping (take (unat buflen) (buf s3))
                          (restore_status blkdev block stepping buflen k s3)) [0..<n]"
proof (induction n)
  case 0
  show ?case by (simp add: restore_attempts_def)
next
  case (Suc n)
  let ?t = "restore_attempts blkdev block stepping buflen n s3"
  have "restore_attempts blkdev block stepping buflen (Suc n) s3 =
          snd (blkdev_write blkdev block stepping (buf ?t) buflen ?t)"
    by (simp add: restore_attempts_def)
  moreover have "iolog (snd (blkdev_write blkdev block stepping (buf ?t) buflen ?t)) =
      iolog ?t @ [IoWrite block stepping (take (unat buflen) (buf ?t))
                    (fst (blkdev_write blkdev block stepping (buf ?t) buflen ?t))]"
    by (simp add: blkdev_write_def split: prod.split)
  ultimately show ?case
    using Suc by (simp add: fst_restore_write buf_restore_attempts)
qed

text \<open>
  C5.  Whenever \<^verbatim>\<open>burn_block\<close> returns, Steps 1 and 2 have returned some status \<open>rv2\<close>,
  which is dropped, and left a state \<open>s3\<close>; then the restore write has been attempted
  \<open>n + 1\<close> times on the device, each attempt writing the buffer as Step 2 left it.  The
  final state is the state after these attempts (the device is as the last
  \<^verbatim>\<open>blkdev.write\<close> left it, the buffer is unchanged, the log has one entry per attempt),
  every attempt but the last failed, and the returned status is the status that the
  device returned to the last attempt.  The returned status is negative (the batch is
  bad) if and only if \<open>retries + 1\<close> restore attempts were made and the device failed all
  of them.
\<close>

theorem burn_block_status:
  assumes "burn_block blkdev stepping block buflen retries patterns s = Some (rv, s')"
  shows "\<exists>rv2 s3 n.
           burn_block_test blkdev stepping block buflen retries patterns s = Some (rv2, s3) \<and>
           s' = restore_attempts blkdev block stepping buflen (Suc n) s3 \<and>
           world s' = snd (dev_write blkdev (world (restore_attempts blkdev block stepping buflen n s3))
                             block stepping (take (unat buflen) (buf s3)) buflen) \<and>
           buf s' = buf s3 \<and>
           iolog s' = iolog s3 @ map (\<lambda>k. IoWrite block stepping (take (unat buflen) (buf s3))
                                             (restore_status blkdev block stepping buflen k s3)) [0..<Suc n] \<and>
           rv = restore_status blkdev block stepping buflen n s3 \<and>
           (\<forall>k<n. restore_status blkdev block stepping buflen k s3 < 0) \<and>
           ((rv < 0) = (n = unat retries \<and>
                        (\<forall>k\<le>n. restore_status blkdev block stepping buflen k s3 < 0)))"
proof -
  let ?op = "\<lambda>t. blkdev_write blkdev block stepping (buf t) buflen t"
  let ?st = "\<lambda>k. restore_status blkdev block stepping buflen k s3"
  from assms obtain rv2 s3 where
    test: "burn_block_test blkdev stepping block buflen retries patterns s = Some (rv2, s3)" and
    restore: "for_retry ?op retries 0 (- 1) s3 = Some (rv, s')"
    by (auto simp: burn_block_def split: Option.bind_splits)
  have st: "fst (?op (attempts ?op k s3)) = restore_status blkdev block stepping buflen k s3" for k
    using fst_restore_write [of blkdev block stepping s3 buflen k]
      buf_restore_attempts [of blkdev block stepping buflen k s3]
    by (simp add: restore_attempts_def)
  from for_retry_attempts [OF restore] obtain m where
    mm: "snd (rv, s') = attempts ?op m s3 \<and>
           (m = 0 \<longrightarrow> fst (rv, s') = - 1) \<and>
           (0 < m \<longrightarrow> fst (rv, s') = fst (?op (attempts ?op (m - 1) s3))) \<and>
           (\<forall>k. Suc k < m \<longrightarrow> fst (?op (attempts ?op k s3)) < 0) \<and>
           ((m \<noteq> 0) = ((0 :: u64) \<le> retries \<and> (- 1 :: int) < 0)) \<and>
           (fst (rv, s') < 0 \<longrightarrow> retries \<noteq> - 1 \<and>
              ((0 :: u64) \<le> retries \<longrightarrow> unat (0 :: u64) + m = Suc (unat retries)))"
    ..
  note mm2 = mm [unfolded fst_conv snd_conv]
  have t: "(0 :: u64) \<le> retries \<and> (- 1 :: int) < 0"
    by simp
  have z: "unat (0 :: u64) + m = m"
    by simp
  from mm2 have m1: "s' = attempts ?op m s3"
    by (rule conjunct1)
  from mm2 t have m4: "m \<noteq> 0"
    by blast
  from mm2 m4 have m2: "rv = fst (?op (attempts ?op (m - 1) s3))"
    by blast
  from mm2 have m3: "\<forall>k. Suc k < m \<longrightarrow> fst (?op (attempts ?op k s3)) < 0"
    by blast
  from mm2 t have "rv < 0 \<longrightarrow> unat (0 :: u64) + m = Suc (unat retries)"
    by blast
  then have m5: "rv < 0 \<longrightarrow> m = Suc (unat retries)"
    by (simp only: z)
  note m = m1 m2 m3 m4 m5
  from m(4) obtain n where n: "m = Suc n"
    by (cases m) simp_all
  have s': "s' = restore_attempts blkdev block stepping buflen (Suc n) s3"
    using m(1) n by (simp add: restore_attempts_def)
  have rv: "rv = restore_status blkdev block stepping buflen n s3"
    using m(2) st [of n] by (simp add: n)
  have earlier: "\<forall>k<n. restore_status blkdev block stepping buflen k s3 < 0"
  proof (intro allI impI)
    fix k
    assume "k < n"
    then have "Suc k < m" by (simp add: n)
    with m(3) have "fst (?op (attempts ?op k s3)) < 0" by blast
    then show "restore_status blkdev block stepping buflen k s3 < 0"
      by (simp only: st)
  qed
  have iff: "(rv < 0) = (n = unat retries \<and>
                        (\<forall>k\<le>n. restore_status blkdev block stepping buflen k s3 < 0))"
  proof
    assume neg: "rv < 0"
    with m(5) n have "n = unat retries" by simp
    moreover have "restore_status blkdev block stepping buflen k s3 < 0" if "k \<le> n" for k
    proof (cases "k = n")
      case True
      with neg rv show ?thesis by simp
    next
      case False
      with that have "k < n" by simp
      with earlier show ?thesis by blast
    qed
    ultimately show "n = unat retries \<and>
                        (\<forall>k\<le>n. restore_status blkdev block stepping buflen k s3 < 0)"
      by blast
  next
    assume "n = unat retries \<and>
                        (\<forall>k\<le>n. restore_status blkdev block stepping buflen k s3 < 0)"
    then show "rv < 0" using rv by simp
  qed
  have w: "world s' = snd (dev_write blkdev (world (restore_attempts blkdev block stepping buflen n s3))
                             block stepping (take (unat buflen) (buf s3)) buflen)"
    unfolding s' by (rule world_restore_attempts)
  have b: "buf s' = buf s3"
    unfolding s' by (rule buf_restore_attempts)
  have l: "iolog s' = iolog s3 @ map (\<lambda>k. IoWrite block stepping (take (unat buflen) (buf s3))
                                             (restore_status blkdev block stepping buflen k s3)) [0..<Suc n]"
    unfolding s' by (rule iolog_restore_attempts)
  show ?thesis
    by (intro exI [of _ rv2] exI [of _ s3] exI [of _ n] conjI test s' w b l rv earlier iff)
qed

text \<open>
  Two runs of \<^verbatim>\<open>burn_block\<close> on a one-byte block.  Where the restore write keeps failing
  with \<^verbatim>\<open>EIO\<close>, the result is \<^verbatim>\<open>-EIO\<close>: the batch is bad.  On a device that stores nothing,
  every pattern comparison fails (Step 2 returns \<^verbatim>\<open>-EIO\<close>), the restore write succeeds,
  and the result is 0: the batch is not bad.
\<close>

theorem burn_block_status_witness:
  "burn_block dev_bad0 1 0 1 2 (burnin_patterns 1) (st0 (mock0 1 0x11) [0]) =
     Some (- EIO, snd (the (burn_block dev_bad0 1 0 1 2 (burnin_patterns 1) (st0 (mock0 1 0x11) [0])))) \<and>
   (\<exists>rv2 s3 n.
      burn_block_test dev_bad0 1 0 1 2 (burnin_patterns 1) (st0 (mock0 1 0x11) [0]) = Some (rv2, s3) \<and>
      snd (the (burn_block dev_bad0 1 0 1 2 (burnin_patterns 1) (st0 (mock0 1 0x11) [0]))) = restore_attempts dev_bad0 0 1 1 (Suc n) s3 \<and>
      world (snd (the (burn_block dev_bad0 1 0 1 2 (burnin_patterns 1) (st0 (mock0 1 0x11) [0])))) = snd (dev_write dev_bad0 (world (restore_attempts dev_bad0 0 1 1 n s3))
                          0 1 (take (unat (1 :: u64)) (buf s3)) 1) \<and>
      buf (snd (the (burn_block dev_bad0 1 0 1 2 (burnin_patterns 1) (st0 (mock0 1 0x11) [0])))) = buf s3 \<and>
      iolog (snd (the (burn_block dev_bad0 1 0 1 2 (burnin_patterns 1) (st0 (mock0 1 0x11) [0])))) = iolog s3 @ map (\<lambda>k. IoWrite 0 1 (take (unat (1 :: u64)) (buf s3))
                                       (restore_status dev_bad0 0 1 1 k s3)) [0..<Suc n] \<and>
      - EIO = restore_status dev_bad0 0 1 1 n s3 \<and>
      (\<forall>k<n. restore_status dev_bad0 0 1 1 k s3 < 0) \<and>
      ((- EIO < 0) = (n = unat (2 :: u64) \<and> (\<forall>k\<le>n. restore_status dev_bad0 0 1 1 k s3 < 0)))) \<and>
   burn_block (dev_ok 1 1) 1 0 1 2 (burnin_patterns 1) (st0 (mock_stuck 1 0x11) [0]) =
     Some ((0 :: int), snd (the (burn_block (dev_ok 1 1) 1 0 1 2 (burnin_patterns 1) (st0 (mock_stuck 1 0x11) [0])))) \<and>
   map_option fst (burn_block_test (dev_ok 1 1) 1 0 1 2 (burnin_patterns 1) (st0 (mock_stuck 1 0x11) [0])) =
     Some (- EIO) \<and>
   (\<exists>rv2 s3 n.
      burn_block_test (dev_ok 1 1) 1 0 1 2 (burnin_patterns 1) (st0 (mock_stuck 1 0x11) [0]) = Some (rv2, s3) \<and>
      snd (the (burn_block (dev_ok 1 1) 1 0 1 2 (burnin_patterns 1) (st0 (mock_stuck 1 0x11) [0]))) = restore_attempts (dev_ok 1 1) 0 1 1 (Suc n) s3 \<and>
      world (snd (the (burn_block (dev_ok 1 1) 1 0 1 2 (burnin_patterns 1) (st0 (mock_stuck 1 0x11) [0])))) = snd (dev_write (dev_ok 1 1) (world (restore_attempts (dev_ok 1 1) 0 1 1 n s3))
                          0 1 (take (unat (1 :: u64)) (buf s3)) 1) \<and>
      buf (snd (the (burn_block (dev_ok 1 1) 1 0 1 2 (burnin_patterns 1) (st0 (mock_stuck 1 0x11) [0])))) = buf s3 \<and>
      iolog (snd (the (burn_block (dev_ok 1 1) 1 0 1 2 (burnin_patterns 1) (st0 (mock_stuck 1 0x11) [0])))) = iolog s3 @ map (\<lambda>k. IoWrite 0 1 (take (unat (1 :: u64)) (buf s3))
                                       (restore_status (dev_ok 1 1) 0 1 1 k s3)) [0..<Suc n] \<and>
      (0 :: int) = restore_status (dev_ok 1 1) 0 1 1 n s3 \<and>
      (\<forall>k<n. restore_status (dev_ok 1 1) 0 1 1 k s3 < 0) \<and>
      (((0 :: int) < 0) = (n = unat (2 :: u64) \<and> (\<forall>k\<le>n. restore_status (dev_ok 1 1) 0 1 1 k s3 < 0))))"
proof -
  have h1: "burn_block dev_bad0 1 0 1 2 (burnin_patterns 1) (st0 (mock0 1 0x11) [0]) =
     Some (- EIO, snd (the (burn_block dev_bad0 1 0 1 2 (burnin_patterns 1) (st0 (mock0 1 0x11) [0]))))"
    by (simp add: eval_simps cong: bind_weak_cong)
  have h2: "burn_block (dev_ok 1 1) 1 0 1 2 (burnin_patterns 1) (st0 (mock_stuck 1 0x11) [0]) =
     Some ((0 :: int), snd (the (burn_block (dev_ok 1 1) 1 0 1 2 (burnin_patterns 1) (st0 (mock_stuck 1 0x11) [0]))))"
    by (simp add: eval_simps cong: bind_weak_cong)
  have t: "map_option fst (burn_block_test (dev_ok 1 1) 1 0 1 2 (burnin_patterns 1) (st0 (mock_stuck 1 0x11) [0])) =
     Some (- EIO)"
    by (simp add: eval_simps cong: bind_weak_cong)
  show ?thesis
    by (intro conjI h1 h2 t burn_block_status [OF h1] burn_block_status [OF h2])
qed

section \<open>The range handed to the loop\<close>

text \<open>The helpers of the scenario device round to multiples of the second argument, as
  long as the sum that rounds up stays below \<open>2^64\<close>.\<close>

lemma unat_round_down:
  fixes n k :: u64
  shows "unat ((n div k) * k) = (unat n div unat k) * unat k"
proof -
  have le: "(unat n div unat k) * unat k \<le> unat n"
    by simp
  have "unat n < 2 ^ 64"
    using unsigned_less [of n] by simp
  with le have "(unat n div unat k) * unat k < 2 ^ 64"
    by (rule le_less_trans)
  then have "unat (n div k) * unat k < 2 ^ LENGTH(64)"
    by (simp add: unat_div)
  then have "unat ((n div k) * k) = unat (n div k) * unat k"
    using unat_mult_lem [of "n div k" k] by blast
  then show ?thesis by (simp add: unat_div)
qed

lemma unat_round_up:
  fixes n k :: u64
  assumes "k \<noteq> 0" and "unat n + unat k - 1 < 2 ^ 64"
  shows "unat (((n + k - 1) div k) * k) = ((unat n + unat k - 1) div unat k) * unat k"
proof -
  from assms(1) have k1: "unat (k - 1) = unat k - 1" and kpos: "0 < unat k"
    by (simp_all add: unat_minus_one unat_gt_0)
  with assms(2) have "unat n + unat (k - 1) < 2 ^ LENGTH(64)"
    by simp
  then have "unat (n + (k - 1)) = unat n + unat (k - 1)"
    using unat_add_lem [of n "k - 1"] by blast
  with k1 kpos have "unat (n + k - 1) = unat n + unat k - 1"
    by (simp add: add_diff_eq)
  with unat_round_down [of "n + k - 1" k] show ?thesis by simp
qed

lemma round_down_multiple:
  "round_down n k = Some r \<Longrightarrow> unat r = (unat n div unat k) * unat k"
  by (auto simp: round_down_def unat_round_down split: if_splits)

lemma round_up_multiple:
  "round_up n k = Some r \<Longrightarrow> unat n + unat k - 1 < 2 ^ 64 \<Longrightarrow>
   unat r = ((unat n + unat k - 1) div unat k) * unat k"
  by (auto simp: round_up_def unat_round_up split: if_splits)













section \<open>The ceiling on the number of bad blocks\<close>

lemma length_push_badblocks:
  "length (push_badblocks badblocks block stepping) = length badblocks + unat stepping"
  by (simp add: push_badblocks_def)

text \<open>
  C10 (as amended).  The ceiling is compared with the length of the whole list, and the
  list the loop works on starts as the list imported from the bad-block file; but the
  comparison is made only right after a batch has been classified bad.  In the loop:
  whenever a batch is classified bad, with \<open>imported\<close> entries from the file and \<open>found\<close>
  entries recorded so far in this run, the list grows by the batch size and the loop
  stops at once if and only if the total length, imported entries included, exceeds the
  maximum; otherwise it goes on with the next batch.  After a batch that is not bad the
  loop goes on with the next batch whatever the length of the list.  In \<^verbatim>\<open>burnin\<close>: the
  list read from the input file is the list of the run, so when the first batch is bad
  and the imported entries together with that batch exceed the maximum, the run ends
  after this one batch, and the list that is saved is the imported list followed by the
  entries of that batch.
\<close>

theorem limit_counts_imported_entries:
  "(block < end_block \<and> \<not> signaled_to_exit blkdev (world s) \<and>
    burn_block blkdev stepping0 block buflen (scast retries) patterns s = Some (rv', s') \<and>
    rv' < 0 \<and> rv' \<noteq> - EINVAL \<longrightarrow>
      length (push_badblocks (imported @ found) (block + trim_stepping blkdev block stepping0)
                (trim_stepping blkdev block stepping0)) =
        length imported + length found + unat (trim_stepping blkdev block stepping0) \<and>
      burnin_while blkdev end_block stepping0 buflen max_errors retries patterns block rv
          (imported @ found) s =
        (if unat max_errors <
              length imported + length found + unat (trim_stepping blkdev block stepping0)
         then Some (rv', block + trim_stepping blkdev block stepping0,
                    push_badblocks (imported @ found) (block + trim_stepping blkdev block stepping0)
                      (trim_stepping blkdev block stepping0), s')
         else burnin_while blkdev end_block stepping0 buflen max_errors retries patterns
                (block + trim_stepping blkdev block stepping0) rv'
                (push_badblocks (imported @ found) (block + trim_stepping blkdev block stepping0)
                   (trim_stepping blkdev block stepping0)) s')) \<and>
   (block2 < end_block2 \<and> \<not> signaled_to_exit blkdev (world s2) \<and>
    burn_block blkdev stepping2 block2 buflen2 (scast retries2) patterns2 s2 = Some (rv2', s2') \<and>
    0 \<le> rv2' \<longrightarrow>
      burnin_while blkdev end_block2 stepping2 buflen2 max_errors2 retries2 patterns2 block2 rv2x
          badblocks2 s2 =
        burnin_while blkdev end_block2 stepping2 buflen2 max_errors2 retries2 patterns2
          (block2 + trim_stepping blkdev block2 stepping2) rv2' badblocks2 s2') \<and>
   (open_rdwr blkdev w (opt_device opts) (\<not> opt_force opts) = (rv1, w1) \<and> 0 \<le> rv1 \<and>
    opt_captcha opts = captcha_calculate blkdev w1 \<and>
    output_file = (if opt_output_file opts = [] then badblockfile_filepath blkdev w1
                   else opt_output_file opts) \<and>
    input_file = (if opt_input_file opts = [] then output_file else opt_input_file opts) \<and>
    badblockfile_read blkdev w1 input_file = (rv2, listed, w2) \<and>
    burnin_range blkdev opts = Some (stepping1, buflen1, start_block1, end_block1) \<and>
    start_block1 < end_block1 \<and>
    \<not> signaled_to_exit blkdev (set_blkdev_rwtype blkdev (opt_rwtype opts) w2) \<and>
    burn_block blkdev stepping1 start_block1 buflen1 (scast (opt_retries opts)) (burnin_patterns buflen1)
      \<lparr>world = set_blkdev_rwtype blkdev (opt_rwtype opts) w2,
        buf = map buf0 [0..<unat buflen1], iolog = []\<rparr> = Some (rv1', s1') \<and>
    rv1' < 0 \<and> rv1' \<noteq> - EINVAL \<and>
    unat (opt_max_errors opts) <
      length listed + unat (trim_stepping blkdev start_block1 stepping1) \<longrightarrow>
      burnin blkdev opts rv0 buf0 w =
        Some (Runtime (- rv1') ''error when performing burnin'',
              snd (dev_close blkdev (snd (badblockfile_write blkdev (world s1') output_file
                (push_badblocks listed
                   (start_block1 + trim_stepping blkdev start_block1 stepping1)
                   (trim_stepping blkdev start_block1 stepping1)))))))"
proof (intro conjI impI)
  assume a: "block < end_block \<and> \<not> signaled_to_exit blkdev (world s) \<and>
    burn_block blkdev stepping0 block buflen (scast retries) patterns s = Some (rv', s') \<and>
    rv' < 0 \<and> rv' \<noteq> - EINVAL"
  show "length (push_badblocks (imported @ found) (block + trim_stepping blkdev block stepping0)
                (trim_stepping blkdev block stepping0)) =
        length imported + length found + unat (trim_stepping blkdev block stepping0)"
    by (simp add: length_push_badblocks)
  from a have lt: "block < end_block" and ns: "\<not> signaled_to_exit blkdev (world s)"
    by simp_all
  from a show "burnin_while blkdev end_block stepping0 buflen max_errors retries patterns block rv
          (imported @ found) s =
        (if unat max_errors <
              length imported + length found + unat (trim_stepping blkdev block stepping0)
         then Some (rv', block + trim_stepping blkdev block stepping0,
                    push_badblocks (imported @ found) (block + trim_stepping blkdev block stepping0)
                      (trim_stepping blkdev block stepping0), s')
         else burnin_while blkdev end_block stepping0 buflen max_errors retries patterns
                (block + trim_stepping blkdev block stepping0) rv'
                (push_badblocks (imported @ found) (block + trim_stepping blkdev block stepping0)
                   (trim_stepping blkdev block stepping0)) s')"
    by (simp add: burnin_while_step [OF lt ns] length_push_badblocks)
next
  assume c: "block2 < end_block2 \<and> \<not> signaled_to_exit blkdev (world s2) \<and>
    burn_block blkdev stepping2 block2 buflen2 (scast retries2) patterns2 s2 = Some (rv2', s2') \<and>
    0 \<le> rv2'"
  then have lt: "block2 < end_block2" and ns: "\<not> signaled_to_exit blkdev (world s2)"
    by simp_all
  from c show "burnin_while blkdev end_block2 stepping2 buflen2 max_errors2 retries2 patterns2 block2 rv2x
          badblocks2 s2 =
        burnin_while blkdev end_block2 stepping2 buflen2 max_errors2 retries2 patterns2
          (block2 + trim_stepping blkdev block2 stepping2) rv2' badblocks2 s2'"
    by (simp add: burnin_while_step [OF lt ns])
next
  let ?w3 = "set_blkdev_rwtype blkdev (opt_rwtype opts) w2"
  let ?s0 = "\<lparr>world = ?w3, buf = map buf0 [0..<unat buflen1], iolog = []\<rparr>"
  let ?t = "trim_stepping blkdev start_block1 stepping1"
  let ?bb = "push_badblocks listed (start_block1 + ?t) ?t"
  let ?err = "Runtime (- rv1') ''error when performing burnin''"
  assume b: "open_rdwr blkdev w (opt_device opts) (\<not> opt_force opts) = (rv1, w1) \<and> 0 \<le> rv1 \<and>
    opt_captcha opts = captcha_calculate blkdev w1 \<and>
    output_file = (if opt_output_file opts = [] then badblockfile_filepath blkdev w1
                   else opt_output_file opts) \<and>
    input_file = (if opt_input_file opts = [] then output_file else opt_input_file opts) \<and>
    badblockfile_read blkdev w1 input_file = (rv2, listed, w2) \<and>
    burnin_range blkdev opts = Some (stepping1, buflen1, start_block1, end_block1) \<and>
    start_block1 < end_block1 \<and>
    \<not> signaled_to_exit blkdev ?w3 \<and>
    burn_block blkdev stepping1 start_block1 buflen1 (scast (opt_retries opts)) (burnin_patterns buflen1)
      ?s0 = Some (rv1', s1') \<and>
    rv1' < 0 \<and> rv1' \<noteq> - EINVAL \<and>
    unat (opt_max_errors opts) < length listed + unat ?t"
  then have op: "open_rdwr blkdev w (opt_device opts) (\<not> opt_force opts) = (rv1, w1)"
    and ok: "0 \<le> rv1" and cap: "opt_captcha opts = captcha_calculate blkdev w1"
    and out: "output_file = (if opt_output_file opts = [] then badblockfile_filepath blkdev w1
                   else opt_output_file opts)"
    and inp: "input_file = (if opt_input_file opts = [] then output_file else opt_input_file opts)"
    and rd: "badblockfile_read blkdev w1 input_file = (rv2, listed, w2)"
    and range: "burnin_range blkdev opts = Some (stepping1, buflen1, start_block1, end_block1)"
    and lt: "start_block1 < end_block1"
    and ns0: "\<not> signaled_to_exit blkdev ?w3"
    and bb: "burn_block blkdev stepping1 start_block1 buflen1 (scast (opt_retries opts))
               (burnin_patterns buflen1) ?s0 = Some (rv1', s1')"
    and neg: "rv1' < 0" "rv1' \<noteq> - EINVAL"
    and lim: "unat (opt_max_errors opts) < length listed + unat ?t"
    by blast+
  from ns0 have ns: "\<not> signaled_to_exit blkdev (world ?s0)"
    by simp
  have loop: "burnin_loop blkdev start_block1 end_block1 stepping1 buflen1 listed
                (opt_max_errors opts) (opt_retries opts) rv0 ?s0 =
              Some (rv1', start_block1 + ?t, ?bb, s1')"
    unfolding burnin_loop_def burnin_while_step [OF lt ns]
    using neg lim by (simp add: bb length_push_badblocks)
  have dev: "burnin_dev blkdev opts rv0 buf0 listed ?w3 = Some (?err, ?bb, s1')"
    unfolding burnin_dev_def range using neg(1) by (simp add: loop)
  note rd' = rd [unfolded inp out]
  obtain rv3 w4 where wr: "badblockfile_write blkdev (world s1') output_file ?bb = (rv3, w4)"
    by (cases "badblockfile_write blkdev (world s1') output_file ?bb")
  note wr' = wr [unfolded out]
  have "burnin blkdev opts rv0 buf0 w = Some (?err, snd (dev_close blkdev w4))"
    unfolding burnin_def Let_def op prod.case
    using ok cap
    by (simp add: rd' dev wr' split: prod.split del: if_split cong: if_cong)
  with wr show "burnin blkdev opts rv0 buf0 w =
        Some (?err, snd (dev_close blkdev (snd (badblockfile_write blkdev (world s1') output_file ?bb))))"
    by simp
qed

text \<open>
  Two blocks, stepping 1, at most 5 errors, the restore write at block 0 failing.  With
  five blocks already listed in the file, the first bad batch brings the list to six
  entries, the run stops before block 1 is touched, and the six entries are saved; with
  an empty file the same run goes on to test block 1.
\<close>

theorem limit_counts_imported_entries_witness:
  "(0 :: u64) < 2 \<and> \<not> signaled_to_exit dev_bad0 (world (st0 (mock_imported 1 0x11) [0])) \<and>
   burn_block dev_bad0 1 0 1 (scast (2 :: 32 word)) (burnin_patterns 1) (st0 (mock_imported 1 0x11) [0]) = Some (- EIO, snd (the (burn_block dev_bad0 1 0 1 (scast (2 :: 32 word)) (burnin_patterns 1) (st0 (mock_imported 1 0x11) [0])))) \<and> - EIO < 0 \<and> - EIO \<noteq> - EINVAL \<and>
   burnin_while dev_bad0 2 1 1 5 2 (burnin_patterns 1) 0 0 ([7, 8, 9, 10, 11] @ []) (st0 (mock_imported 1 0x11) [0]) =
     Some (- EIO, 1, [7, 8, 9, 10, 11, 1], snd (the (burn_block dev_bad0 1 0 1 (scast (2 :: 32 word)) (burnin_patterns 1) (st0 (mock_imported 1 0x11) [0])))) \<and>
   (0 :: u64) < 2 \<and> \<not> signaled_to_exit (dev_ok 2 1) (world (st0 (mock_imported 1 0x11) [0])) \<and>
   burn_block (dev_ok 2 1) 1 0 1 (scast (2 :: 32 word)) (burnin_patterns 1) (st0 (mock_imported 1 0x11) [0]) = Some (0, snd (the (burn_block (dev_ok 2 1) 1 0 1 (scast (2 :: 32 word)) (burnin_patterns 1) (st0 (mock_imported 1 0x11) [0])))) \<and> (0 :: int) \<le> 0 \<and>
   burnin_while (dev_ok 2 1) 2 1 1 3 2 (burnin_patterns 1) 0 0 [7, 8, 9, 10, 11] (st0 (mock_imported 1 0x11) [0]) =
     burnin_while (dev_ok 2 1) 2 1 1 3 2 (burnin_patterns 1) (0 + trim_stepping (dev_ok 2 1) 0 1) 0
       [7, 8, 9, 10, 11] (snd (the (burn_block (dev_ok 2 1) 1 0 1 (scast (2 :: 32 word)) (burnin_patterns 1) (st0 (mock_imported 1 0x11) [0])))) \<and>
   open_rdwr dev_bad0 (mock_imported 1 0x11) (opt_device (opts_scenario 0 2 1 5)) (\<not> opt_force (opts_scenario 0 2 1 5)) = (0, (mock_imported 1 0x11)) \<and> (0 :: int) \<le> 0 \<and>
   opt_captcha (opts_scenario 0 2 1 5) = captcha_calculate dev_bad0 (mock_imported 1 0x11) \<and>
   ''badblocks'' = (if opt_output_file (opts_scenario 0 2 1 5) = [] then badblockfile_filepath dev_bad0 (mock_imported 1 0x11)
                    else opt_output_file (opts_scenario 0 2 1 5)) \<and>
   ''badblocks'' = (if opt_input_file (opts_scenario 0 2 1 5) = [] then ''badblocks'' else opt_input_file (opts_scenario 0 2 1 5)) \<and>
   badblockfile_read dev_bad0 (mock_imported 1 0x11) ''badblocks'' = (0, [7, 8, 9, 10, 11], (mock_imported 1 0x11)) \<and>
   burnin_range dev_bad0 (opts_scenario 0 2 1 5) = Some (1, 1, 0, 2) \<and>
   (0 :: u64) < 2 \<and>
   \<not> signaled_to_exit dev_bad0 (set_blkdev_rwtype dev_bad0 (opt_rwtype (opts_scenario 0 2 1 5)) (mock_imported 1 0x11)) \<and>
   burn_block dev_bad0 1 0 1 (scast (opt_retries (opts_scenario 0 2 1 5))) (burnin_patterns 1) \<lparr>world = set_blkdev_rwtype dev_bad0 (opt_rwtype (opts_scenario 0 2 1 5)) (mock_imported 1 0x11), buf = map (\<lambda>i. 0) [0..<unat (1 :: u64)], iolog = []\<rparr> = Some (- EIO, snd (the (burn_block dev_bad0 1 0 1 (scast (opt_retries (opts_scenario 0 2 1 5))) (burnin_patterns 1) \<lparr>world = set_blkdev_rwtype dev_bad0 (opt_rwtype (opts_scenario 0 2 1 5)) (mock_imported 1 0x11), buf = map (\<lambda>i. 0) [0..<unat (1 :: u64)], iolog = []\<rparr>))) \<and>
   - EIO < 0 \<and> - EIO \<noteq> - EINVAL \<and>
   unat (opt_max_errors (opts_scenario 0 2 1 5)) < length [7, 8, 9, 10, 11] + unat (trim_stepping dev_bad0 0 1) \<and>
   map_option (\<lambda>(e, w). (e, bbfile w, nwrites w 1))
     (burnin dev_bad0 (opts_scenario 0 2 1 5) 0 (\<lambda>i. 0) (mock_imported 1 0x11)) =
     Some (Runtime EIO ''error when performing burnin'', [7, 8, 9, 10, 11, 1], 0) \<and>
   map_option (\<lambda>(e, w). (e, bbfile w, nwrites w 1))
     (burnin dev_bad0 (opts_scenario 0 2 1 5) 0 (\<lambda>i. 0) (mock0 1 0x11)) =
     Some (Success, [1], 5)"
proof -
  have ch: "(0 :: u64) < 2 \<and> \<not> signaled_to_exit (dev_ok 2 1) (world (st0 (mock_imported 1 0x11) [0])) \<and>
   burn_block (dev_ok 2 1) 1 0 1 (scast (2 :: 32 word)) (burnin_patterns 1) (st0 (mock_imported 1 0x11) [0]) = Some (0, snd (the (burn_block (dev_ok 2 1) 1 0 1 (scast (2 :: 32 word)) (burnin_patterns 1) (st0 (mock_imported 1 0x11) [0])))) \<and> (0 :: int) \<le> 0"
    by (simp add: eval_simps cong: bind_weak_cong)
  have cc: "burnin_while (dev_ok 2 1) 2 1 1 3 2 (burnin_patterns 1) 0 0 [7, 8, 9, 10, 11] (st0 (mock_imported 1 0x11) [0]) =
     burnin_while (dev_ok 2 1) 2 1 1 3 2 (burnin_patterns 1) (0 + trim_stepping (dev_ok 2 1) 0 1) 0
       [7, 8, 9, 10, 11] (snd (the (burn_block (dev_ok 2 1) 1 0 1 (scast (2 :: 32 word)) (burnin_patterns 1) (st0 (mock_imported 1 0x11) [0]))))"
    using limit_counts_imported_entries [THEN conjunct2, THEN conjunct1, rule_format,
      where ?end_block2.0 = 2 and ?max_errors2.0 = 3 and rv2x = 0
        and ?badblocks2.0 = "[7, 8, 9, 10, 11]",
      OF ch] .
  have ah: "(0 :: u64) < 2 \<and> \<not> signaled_to_exit dev_bad0 (world (st0 (mock_imported 1 0x11) [0])) \<and>
   burn_block dev_bad0 1 0 1 (scast (2 :: 32 word)) (burnin_patterns 1) (st0 (mock_imported 1 0x11) [0]) = Some (- EIO, snd (the (burn_block dev_bad0 1 0 1 (scast (2 :: 32 word)) (burnin_patterns 1) (st0 (mock_imported 1 0x11) [0])))) \<and> - EIO < 0 \<and> - EIO \<noteq> - EINVAL"
    by (simp add: eval_simps cong: bind_weak_cong)
  have t: "trim_stepping dev_bad0 0 1 = 1"
    by (simp add: eval_simps)
  have p: "push_badblocks ([7, 8, 9, 10, 11] @ []) (0 + 1) 1 = [7, 8, 9, 10, 11, 1]"
    by (simp add: push_badblocks_def)
  have ac: "burnin_while dev_bad0 2 1 1 5 2 (burnin_patterns 1) 0 0 ([7, 8, 9, 10, 11] @ []) (st0 (mock_imported 1 0x11) [0]) =
     Some (- EIO, 1, [7, 8, 9, 10, 11, 1], snd (the (burn_block dev_bad0 1 0 1 (scast (2 :: 32 word)) (burnin_patterns 1) (st0 (mock_imported 1 0x11) [0]))))"
    using limit_counts_imported_entries [THEN conjunct1, rule_format, OF ah,
      where imported = "[7, 8, 9, 10, 11]" and found = "[]" and max_errors = 5 and rv = 0]
    by (simp only: t p) simp
  have bh: "open_rdwr dev_bad0 (mock_imported 1 0x11) (opt_device (opts_scenario 0 2 1 5)) (\<not> opt_force (opts_scenario 0 2 1 5)) = (0, (mock_imported 1 0x11)) \<and> (0 :: int) \<le> 0 \<and>
   opt_captcha (opts_scenario 0 2 1 5) = captcha_calculate dev_bad0 (mock_imported 1 0x11) \<and>
   ''badblocks'' = (if opt_output_file (opts_scenario 0 2 1 5) = [] then badblockfile_filepath dev_bad0 (mock_imported 1 0x11)
                    else opt_output_file (opts_scenario 0 2 1 5)) \<and>
   ''badblocks'' = (if opt_input_file (opts_scenario 0 2 1 5) = [] then ''badblocks'' else opt_input_file (opts_scenario 0 2 1 5)) \<and>
   badblockfile_read dev_bad0 (mock_imported 1 0x11) ''badblocks'' = (0, [7, 8, 9, 10, 11], (mock_imported 1 0x11)) \<and>
   burnin_range dev_bad0 (opts_scenario 0 2 1 5) = Some (1, 1, 0, 2) \<and>
   (0 :: u64) < 2 \<and>
   \<not> signaled_to_exit dev_bad0 (set_blkdev_rwtype dev_bad0 (opt_rwtype (opts_scenario 0 2 1 5)) (mock_imported 1 0x11)) \<and>
   burn_block dev_bad0 1 0 1 (scast (opt_retries (opts_scenario 0 2 1 5))) (burnin_patterns 1) \<lparr>world = set_blkdev_rwtype dev_bad0 (opt_rwtype (opts_scenario 0 2 1 5)) (mock_imported 1 0x11), buf = map (\<lambda>i. 0) [0..<unat (1 :: u64)], iolog = []\<rparr> = Some (- EIO, snd (the (burn_block dev_bad0 1 0 1 (scast (opt_retries (opts_scenario 0 2 1 5))) (burnin_patterns 1) \<lparr>world = set_blkdev_rwtype dev_bad0 (opt_rwtype (opts_scenario 0 2 1 5)) (mock_imported 1 0x11), buf = map (\<lambda>i. 0) [0..<unat (1 :: u64)], iolog = []\<rparr>))) \<and>
   - EIO < 0 \<and> - EIO \<noteq> - EINVAL \<and>
   unat (opt_max_errors (opts_scenario 0 2 1 5)) < length [7, 8, 9, 10, 11] + unat (trim_stepping dev_bad0 0 1)"
    by (simp add: eval_simps set_blkdev_rwtype_def cong: bind_weak_cong)
  have bc: "map_option (\<lambda>(e, w). (e, bbfile w, nwrites w 1))
     (burnin dev_bad0 (opts_scenario 0 2 1 5) 0 (\<lambda>i. 0) (mock_imported 1 0x11)) =
     Some (Runtime EIO ''error when performing burnin'', [7, 8, 9, 10, 11, 1], 0)"
    using limit_counts_imported_entries [THEN conjunct2, THEN conjunct2, rule_format, OF bh,
      where ?rv0.0 = 0]
    by (simp add: eval_simps set_blkdev_rwtype_def cong: bind_weak_cong)
  have e: "map_option (\<lambda>(e, w). (e, bbfile w, nwrites w 1))
     (burnin dev_bad0 (opts_scenario 0 2 1 5) 0 (\<lambda>i. 0) (mock0 1 0x11)) =
     Some (Success, [1], 5)"
    by (simp add: burnin_def set_blkdev_rwtype_def eval_simps cong: bind_weak_cong)
  from ah ac ch cc bh bc e show ?thesis by blast
qed

text \<open>
  A healthy device of two blocks, a file that already lists five blocks, and a maximum
  of 3: the list is longer than the maximum from the start, no batch is bad, and the
  run tests both blocks and ends in success with the list as it was.
\<close>

theorem limit_not_compared_counterexample:
  "unat (3 :: u64) < length [7, 8, 9, 10, 11 :: u64] \<and>
   map_option (\<lambda>(rv, cursor, badblocks, s). (rv, cursor, badblocks))
     (burnin_loop (dev_ok 2 1) 0 2 1 1 [7, 8, 9, 10, 11] 3 2 0 (st0 (mock_imported 1 0x11) [0])) =
     Some (0, 2, [7, 8, 9, 10, 11]) \<and>
   map_option (\<lambda>(e, w). (e, bbfile w, nwrites w 1))
     (burnin (dev_ok 2 1) (opts_scenario 0 2 1 3) 0 (\<lambda>i. 0) (mock_imported 1 0x11)) =
     Some (Success, [7, 8, 9, 10, 11], 5)"
  by (simp add: burnin_def set_blkdev_rwtype_def eval_simps cong: bind_weak_cong)

end
